theory Spec2Isabelle
  imports
    Complex_Main
    "HOL-Library.Char_ord"
    "HOL-Library.List_Lexorder"
    "HOL-Library.Product_Lexorder"
begin

section \<open>Values, strings and formatting\<close>

text \<open>
  A cell of the \<open>Value\<close> column is a float64: a finite number or NaN. The finite numbers of
  the dashboard are decimal literals with two fractional digits that are only ever compared,
  averaged one at a time, rounded and printed, so a finite float is modelled by the rational
  its literal denotes. The source tables hold Python floats and \<open>None\<close>; there a value is a
  \<open>rat option\<close>, with \<open>None\<close> for Python's \<open>None\<close>.

  Python strings are modelled as byte strings in UTF-8. Equality and the code-point order of
  Python agree with equality and the byte-wise lexicographic order of the encoding; the
  program never measures the length of a string.
\<close>

datatype float64 = Fin rat | NaN

definition mdash :: string where
  "mdash = [CHR 0xE2, CHR 0x80, CHR 0x94]"

definition ndash :: string where
  "ndash = [CHR 0xE2, CHR 0x80, CHR 0x93]"

definition rsquo :: string where
  "rsquo = [CHR 0xE2, CHR 0x80, CHR 0x99]"

text \<open>Decimal digits of a non-negative integer, the most significant first.\<close>

definition digit_char :: "int \<Rightarrow> char" where
  "digit_char d = char_of (48 + d)"

function digits :: "int \<Rightarrow> string" where
  "digits n = (if n < 10 then [digit_char n] else digits (n div 10) @ [digit_char (n mod 10)])"
  by pat_completeness auto
termination
  by (relation "measure nat") auto

declare digits.simps [simp del]

text \<open>Rounding to the nearest integer, ties to the even one (Python's and numpy's rule).\<close>

definition round_half_even :: "rat \<Rightarrow> int" where
  "round_half_even q =
     (let f = \<lfloor>q\<rfloor>; d = q - of_int f
      in if d < 1 / 2 then f else if 1 / 2 < d then f + 1 else if even f then f else f + 1)"

text \<open>The format specification \<open>.2f\<close>: two fractional digits, \<open>nan\<close> for NaN.\<close>

definition format_2f :: "float64 \<Rightarrow> string" where
  "format_2f v =
     (case v of
        NaN \<Rightarrow> ''nan''
      | Fin q \<Rightarrow>
          (let n = \<bar>round_half_even (q * 100)\<bar>
           in (if q < 0 then ''-'' else []) @ digits (n div 100) @ ''.''
              @ [digit_char (n mod 100 div 10), digit_char (n mod 10)]))"

text \<open>
  The expression \<open>f"{v:.2f}" if v is not None else "\<emdash>"\<close> of the cards and of the bar labels.
  Its argument is a Python value that may be \<open>None\<close>.
\<close>

definition fmt_or_dash :: "float64 option \<Rightarrow> string" where
  "fmt_or_dash v = (case v of Some x \<Rightarrow> format_2f x | None \<Rightarrow> mdash)"

text \<open>\<open>str.title()\<close> on ASCII text: the first letter of every run of letters in upper case,
  the others in lower case.\<close>

definition is_lower :: "char \<Rightarrow> bool" where
  "is_lower c = (97 \<le> (of_char c :: nat) \<and> (of_char c :: nat) \<le> 122)"

definition is_upper :: "char \<Rightarrow> bool" where
  "is_upper c = (65 \<le> (of_char c :: nat) \<and> (of_char c :: nat) \<le> 90)"

fun title_from :: "bool \<Rightarrow> string \<Rightarrow> string" where
  "title_from prev [] = []"
| "title_from prev (c # cs) =
     (if is_lower c then (if prev then c else char_of (of_char c - (32::nat))) # title_from True cs
      else if is_upper c then (if prev then char_of (of_char c + (32::nat)) else c) # title_from True cs
      else c # title_from False cs)"

definition title :: "string \<Rightarrow> string" where
  "title s = title_from False s"

section \<open>The dataset\<close>

definition years :: "string list" where
  "years = [''Mar-21'', ''Mar-22'', ''Mar-23'', ''Mar-24'', ''Mar-25'']"

definition year_numbers :: "int list" where
  "year_numbers = [2021, 2022, 2023, 2024, 2025]"

definition ambuja :: "(string \<times> rat option list) list" where
  "ambuja =
    [(''Current Ratio'', [Some 1.62, Some 1.42, Some 1.96, Some 2.03, Some 1.55]),
     (''Quick Ratio'', [Some 1.41, Some 1.22, Some 1.72, Some 1.79, Some 1.30]),
     (''Gross Profit Margin'', [Some 17.46, Some 8.35, Some 8.93, Some 14.40, Some 9.96]),
     (''Net Profit Margin'', [Some 9.59, Some 6.25, Some 6.63, Some 10.78, Some 11.89]),
     (''Interest Coverage Ratio'', [Some 37.14, Some 19.33, Some 21.63, Some 21.50, Some 28.46]),
     (''Inventory Turnover'', [Some 10.58, Some 9.26, Some 11.90, Some 9.19, Some 8.25]),
     (''Asset Turnover'', [Some 0.94, Some 0.95, Some 1.09, Some 0.74, Some 0.61]),
     (''Trade Receivable Turnover'', [Some 48.00, Some 36.51, Some 43.26, Some 28.01, Some 25.00])]"

definition ultratech :: "(string \<times> rat option list) list" where
  "ultratech =
    [(''Current Ratio'', [Some 0.37, Some 0.39, Some 0.42, Some 0.43, Some 0.44]),
     (''Quick Ratio'', [Some 0.20, Some 0.14, Some 0.17, Some 0.15, Some 0.17]),
     (''Gross Profit Margin'', [Some 56.22, Some 50.97, Some 45.01, Some 48.87, Some 49.03]),
     (''Net Profit Margin'', [Some 12.30, Some 13.69, Some 7.86, Some 9.97, Some 8.47]),
     (''Interest Coverage Ratio'', [Some 7.31, Some 11.37, Some 10.62, Some 11.71, Some 6.67]),
     (''Inventory Turnover'', [None, Some 5.59, Some 6.00, Some 4.97, Some 4.41]),
     (''Asset Turnover'', [None, Some 0.86, Some 1.01, Some 1.07, Some 0.92]),
     (''Trade Receivable Turnover'', [None, Some 2.54, Some 2.58, Some 2.55, Some 2.28])]"

text \<open>One dictionary of the list \<open>rows\<close>, and one row of the data frame built from it.\<close>

record raw_row =
  raw_Company :: string
  raw_Metric :: string
  raw_Value :: "rat option"
  raw_YearLabel :: string
  raw_Year :: int

record row =
  Company :: string
  Metric :: string
  Value :: float64
  YearLabel :: string
  Year :: int

definition rows :: "raw_row list" where
  "rows =
     concat (map (\<lambda>(i, y).
        map (\<lambda>(k, v). \<lparr>raw_Company = ''Ambuja Cements'', raw_Metric = k, raw_Value = v ! i,
                         raw_YearLabel = y, raw_Year = year_numbers ! i\<rparr>) ambuja
        @ map (\<lambda>(k, v). \<lparr>raw_Company = ''UltraTech Cement'', raw_Metric = k, raw_Value = v ! i,
                           raw_YearLabel = y, raw_Year = year_numbers ! i\<rparr>) ultratech)
       (enumerate 0 years))"

text \<open>
  \<open>pd.DataFrame(rows)\<close> infers one dtype per column. A column of Python floats and \<open>None\<close>
  becomes a float64 column in which every \<open>None\<close> is stored as NaN; the data frame holds no
  \<open>None\<close> afterwards.
\<close>

definition DataFrame :: "raw_row list \<Rightarrow> row list" where
  "DataFrame rs =
     map (\<lambda>r. \<lparr>Company = raw_Company r, Metric = raw_Metric r,
                Value = (case raw_Value r of None \<Rightarrow> NaN | Some q \<Rightarrow> Fin q),
                YearLabel = raw_YearLabel r, Year = raw_Year r\<rparr>) rs"

section \<open>The module state\<close>

text \<open>
  The callbacks read five module-level names. They are gathered in a record that every
  callback receives, so that what a callback reads, and that it assigns to none of them, is
  explicit. A dictionary is an association list in insertion order, looked up with
  \<^const>\<open>map_of\<close>.
\<close>

record globals =
  metric_colors :: "(string \<times> string) list"
  company_colors :: "(string \<times> string) list"
  insights :: "(string \<times> string) list"
  df :: "row list"
  metric_groups :: "(string \<times> string list) list"

definition module_globals :: globals where
  "module_globals =
    \<lparr>metric_colors =
       [(''Current Ratio'', ''#1f77b4''),
        (''Quick Ratio'', ''#aec7e8''),
        (''Gross Profit Margin'', ''#2ca02c''),
        (''Net Profit Margin'', ''#98df8a''),
        (''Interest Coverage Ratio'', ''#9467bd''),
        (''Inventory Turnover'', ''#ff7f0e''),
        (''Asset Turnover'', ''#ffbb78''),
        (''Trade Receivable Turnover'', ''#d62728'')],
     company_colors =
       [(''Ambuja Cements'', ''#1f77b4''),
        (''UltraTech Cement'', ''#ff7f0e'')],
     insights =
       [(''Current Ratio'',
         ''Ambuja'' @ rsquo @ ''s 1.62 ('' @ rsquo @ ''21) to 1.55 ('' @ rsquo @ ''25) shows solid liquidity, peaking at 2.03 ('' @ rsquo @ ''24), but recent dip hints at tighter operations. UltraTech'' @ rsquo @ ''s low 0.37'' @ ndash @ ''0.44 signals lean liquidity, risking strain but efficient for capital-heavy cement.''),
        (''Quick Ratio'',
         ''Ambuja'' @ rsquo @ ''s 1.41'' @ ndash @ ''1.30 ('' @ rsquo @ ''21'' @ ndash @ rsquo @ ''25) reflects strong immediate liquidity, though declining. UltraTech'' @ rsquo @ ''s 0.20'' @ ndash @ ''0.17 shows vulnerability, prioritizing efficiency over cash reserves.''),
        (''Gross Profit Margin'',
         ''Ambuja'' @ rsquo @ ''s volatile 17.46% ('' @ rsquo @ ''21) to 9.96% ('' @ rsquo @ ''25) suggests cost pressures, recovering to 14.40% ('' @ rsquo @ ''24). UltraTech'' @ rsquo @ ''s robust 56.22%'' @ ndash @ ''49.03% showcases superior pricing power and scale.''),
        (''Net Profit Margin'',
         ''Ambuja improves from 6.25% ('' @ rsquo @ ''22) to 11.89% ('' @ rsquo @ ''25), signaling better cost control. UltraTech peaks at 13.69% ('' @ rsquo @ ''22) but falls to 8.47% ('' @ rsquo @ ''25), indicating moderated profitability.''),
        (''Interest Coverage Ratio'',
         ''Ambuja'' @ rsquo @ ''s strong 37.14'' @ ndash @ ''28.46 ('' @ rsquo @ ''21'' @ ndash @ rsquo @ ''25) reflects low debt risk. UltraTech'' @ rsquo @ ''s 7.31'' @ ndash @ ''6.67 suggests higher leverage but manageable coverage.''),
        (''Inventory Turnover'',
         ''Ambuja'' @ rsquo @ ''s 10.58'' @ ndash @ ''8.25 ('' @ rsquo @ ''21'' @ ndash @ rsquo @ ''25) shows slowing inventory movement, risking costs. UltraTech'' @ rsquo @ ''s 5.59'' @ ndash @ ''4.41 ('' @ rsquo @ ''22'' @ ndash @ rsquo @ ''25) indicates even slower turnover, less efficient.''),
        (''Asset Turnover'',
         ''Ambuja'' @ rsquo @ ''s 0.94'' @ ndash @ ''0.61 ('' @ rsquo @ ''21'' @ ndash @ rsquo @ ''25) reflects declining asset efficiency. UltraTech'' @ rsquo @ ''s 0.86'' @ ndash @ ''0.92 ('' @ rsquo @ ''22'' @ ndash @ rsquo @ ''25) is steadier, slightly outperforming in sales generation.''),
        (''Trade Receivable Turnover'',
         ''Ambuja'' @ rsquo @ ''s 48.00'' @ ndash @ ''25.00 ('' @ rsquo @ ''21'' @ ndash @ rsquo @ ''25) signals slower collections, risking cash flow. UltraTech'' @ rsquo @ ''s 2.54'' @ ndash @ ''2.28 ('' @ rsquo @ ''22'' @ ndash @ rsquo @ ''25) is far slower, highlighting credit leniency.'')],
     df = DataFrame rows,
     metric_groups =
       [(''liquidity'', [''Current Ratio'', ''Quick Ratio'']),
        (''profitability'', [''Gross Profit Margin'', ''Net Profit Margin'']),
        (''turnover'', [''Inventory Turnover'', ''Asset Turnover'', ''Trade Receivable Turnover'']),
        (''leverage'', [''Interest Coverage Ratio''])]\<rparr>"

text \<open>\<open>d.get(k, default)\<close> on a dictionary.\<close>

definition get_or :: "('k \<times> 'v) list \<Rightarrow> 'k \<Rightarrow> 'v \<Rightarrow> 'v" where
  "get_or d k dflt = (case map_of d k of None \<Rightarrow> dflt | Some v \<Rightarrow> v)"

section \<open>The latest value of a metric\<close>

text \<open>
  \<open>sort_values('Year')\<close> is modelled by the stable insertion sort \<^const>\<open>sort_key\<close>.
  pandas sorts with an unstable algorithm by default; the two agree whenever the years of the
  sorted rows are pairwise distinct, which holds for every selection the callbacks sort.
  \<open>.iloc[-1]\<close> of a non-empty column is its last element, a float and never \<open>None\<close>.
\<close>

definition kpi_latest :: "row list \<Rightarrow> string \<Rightarrow> string \<Rightarrow> float64 option" where
  "kpi_latest df_local company metric =
     (let sub = filter (\<lambda>r. Company r = company \<and> Metric r = metric) df_local
      in if sub = [] then None
         else Some (last (map Value (sort_key Year sub))))"

section \<open>Components, figures and frames\<close>

text \<open>
  The callbacks return Dash components and Plotly figures. A component is modelled by its
  tag and its children, a figure by its traces and its title. Style dictionaries and the
  layout options that are the same constants on every call (bar mode, axis titles, margins,
  heights, text positions) carry no information about the selection and are left out. A
  component given a single child holds the one-element list of it.
\<close>

datatype component =
  Div "component list"
| H4 string
| Strong string
| Pre string
| Str string

record marker =
  marker_color :: string
  marker_pattern :: "string option"

datatype trace =
  Bar (trace_x: "string list") (trace_y: "float64 list") (trace_name: string)
      (trace_text: "string list") (trace_marker: marker)
| Scatter (trace_x: "string list") (trace_y: "float64 list") (trace_name: string)
      (line_color: string)

record figure =
  traces :: "trace list"
  layout_title :: string

text \<open>A pivoted data frame: the row labels, the column keys (company, metric), and the
  cells row by row.\<close>

record frame =
  frame_index :: "string list"
  frame_columns :: "(string \<times> string) list"
  frame_values :: "float64 list list"

datatype error = KeyError string | IndexError

section \<open>The KPI cards and the insights\<close>

definition update_kpis_and_insights ::
  "globals \<Rightarrow> string \<Rightarrow> string \<Rightarrow> error + (component list \<times> component list)" where
  "update_kpis_and_insights G company grp =
     (let metrics = get_or (metric_groups G) grp [];
          cards = map (\<lambda>metric.
            let body =
              (if company = ''Both'' then
                 (let a_val = kpi_latest (df G) ''Ambuja Cements'' metric;
                      u_val = kpi_latest (df G) ''UltraTech Cement'' metric
                  in Div [Div [Str metric],
                          Div [Div [Div [Str ''Ambuja''], Div [Str (fmt_or_dash a_val)]],
                               Div [Div [Str ''UltraTech''], Div [Str (fmt_or_dash u_val)]]]])
               else
                 (let val = kpi_latest (df G) company metric
                  in Div [Div [Str metric], Div [Str (fmt_or_dash val)]]))
            in Div [body]) metrics;
          insight_children =
            H4 ''Insights for Selected Ratios''
            # map (\<lambda>metric.
                Div [Strong (metric @ '': ''),
                     Str (get_or (insights G) metric ''No insight available.'')]) metrics
      in Inr (cards, insight_children))"

section \<open>The charts and the table\<close>

text \<open>The filtered frame \<open>dff\<close>: the rows of a metric of the group whose year lies in the
  range.\<close>

definition filtered :: "row list \<Rightarrow> string list \<Rightarrow> int \<Rightarrow> int \<Rightarrow> row list" where
  "filtered d metrics yr_min yr_max =
     filter (\<lambda>r. Metric r \<in> set metrics \<and> yr_min \<le> Year r \<and> Year r \<le> yr_max) d"

text \<open>
  The bar labels iterate over a float64 column, which yields Python floats: a missing cell
  comes out as the float NaN and never as \<open>None\<close>, so the test \<open>v is not None\<close> receives
  \<open>Some v\<close> for every cell.
\<close>

definition bar_text :: "float64 list \<Rightarrow> string list" where
  "bar_text vs = map (\<lambda>v. fmt_or_dash (Some v)) vs"

definition main_chart ::
  "globals \<Rightarrow> row list \<Rightarrow> string \<Rightarrow> string \<Rightarrow> string list \<Rightarrow> figure" where
  "main_chart G dff company grp metrics =
     (if company = ''Both'' then
        \<lparr>traces = concat (map (\<lambda>metric. map (\<lambda>comp.
            let s = sort_key Year (filter (\<lambda>r. Metric r = metric \<and> Company r = comp) dff);
                m = \<lparr>marker_color = get_or (metric_colors G) metric ''#000000'',
                     marker_pattern = (if comp = ''UltraTech Cement'' then Some ''/'' else None)\<rparr>
            in Bar (map YearLabel s) (map Value s) (comp @ '' '' @ mdash @ '' '' @ metric)
                   (bar_text (map Value s)) m)
            [''Ambuja Cements'', ''UltraTech Cement'']) metrics),
         layout_title = ''Comparison '' @ mdash @ '' grouped by metric & company''\<rparr>
      else
        \<lparr>traces = map (\<lambda>metric.
            let s = sort_key Year (filter (\<lambda>r. Company r = company \<and> Metric r = metric) dff);
                m = \<lparr>marker_color = get_or (metric_colors G) metric ''#000000'',
                     marker_pattern = None\<rparr>
            in Bar (map YearLabel s) (map Value s) metric (bar_text (map Value s)) m) metrics,
         layout_title = company @ '' '' @ mdash @ '' '' @ title grp\<rparr>)"

definition spark_chart :: "globals \<Rightarrow> row list \<Rightarrow> string \<Rightarrow> string \<Rightarrow> figure" where
  "spark_chart G dff company primary =
     \<lparr>traces =
        (if company = ''Both'' then
           map (\<lambda>comp.
             let s = sort_key Year (filter (\<lambda>r. Metric r = primary \<and> Company r = comp) dff)
             in Scatter (map YearLabel s) (map Value s) comp
                  (get_or (company_colors G) comp ''#000000''))
             [''Ambuja Cements'', ''UltraTech Cement'']
         else
           (let s = sort_key Year (filter (\<lambda>r. Metric r = primary \<and> Company r = company) dff)
            in [Scatter (map YearLabel s) (map Value s) company
                  (get_or (company_colors G) company ''#000000'')])),
      layout_title = ''Trend '' @ mdash @ '' '' @ primary\<rparr>"

text \<open>
  \<open>pivot_table(index='YearLabel', columns=['Company', 'Metric'], values='Value')\<close> with
  the defaults of pandas (\<open>aggfunc='mean'\<close>, \<open>dropna=True\<close>, \<open>sort=True\<close>):
  \<^enum> the rows are grouped by (YearLabel, Company, Metric), the groups in ascending order of
    their key, and each group is replaced by the mean of its values, NaN being skipped and
    a group of NaN only having the mean NaN;
  \<^enum> the groups whose mean is NaN are dropped;
  \<^enum> the remaining groups are unstacked: the row labels are the year labels that remain, the
    columns the (Company, Metric) pairs that remain, both ascending, and a cell without a
    group is NaN.
  The last step of pandas, dropping the columns that hold NaN only, finds none: every column
  comes from a group that was kept.
\<close>

definition mean_skipna :: "float64 list \<Rightarrow> float64" where
  "mean_skipna vs =
     (case concat (map (\<lambda>v. case v of Fin q \<Rightarrow> [q] | NaN \<Rightarrow> []) vs) of
        [] \<Rightarrow> NaN
      | q # qs \<Rightarrow> Fin (sum_list (q # qs) / of_nat (length (q # qs))))"

definition group_key :: "row \<Rightarrow> string \<times> string \<times> string" where
  "group_key r = (YearLabel r, Company r, Metric r)"

definition groupby_mean :: "row list \<Rightarrow> ((string \<times> string \<times> string) \<times> float64) list" where
  "groupby_mean rs =
     map (\<lambda>k. (k, mean_skipna (map Value (filter (\<lambda>r. group_key r = k) rs))))
       (sort (remdups (map group_key rs)))"

definition pivot_table :: "row list \<Rightarrow> frame" where
  "pivot_table rs =
     (let agged = filter (\<lambda>(k, v). v \<noteq> NaN) (groupby_mean rs);
          idx = sort (remdups (map (\<lambda>(k, v). fst k) agged));
          cols = sort (remdups (map (\<lambda>(k, v). snd k) agged))
      in \<lparr>frame_index = idx,
          frame_columns = cols,
          frame_values =
            map (\<lambda>y. map (\<lambda>cm. case map_of agged (y, cm) of None \<Rightarrow> NaN | Some v \<Rightarrow> v) cols) idx\<rparr>)"

text \<open>\<open>round(3)\<close>: every cell times 1000, rounded to an integer, divided by 1000; NaN stays.\<close>

definition round3 :: "float64 \<Rightarrow> float64" where
  "round3 v = (case v of NaN \<Rightarrow> NaN | Fin q \<Rightarrow> Fin (of_int (round_half_even (q * 1000)) / 1000))"

definition round_frame :: "frame \<Rightarrow> frame" where
  "round_frame t = t\<lparr>frame_values := map (map round3) (frame_values t)\<rparr>"

text \<open>
  \<open>to_csv()\<close> of a rounded frame, with the line terminator of POSIX systems. A float is
  written in its shortest form, with at least one and here at most three fractional digits;
  NaN is written as the empty string. A field holding a comma, a double quote or a line break
  is quoted. The header has one line per column level and one for the name of the index.
\<close>

definition strip_zeros :: "string \<Rightarrow> string" where
  "strip_zeros ds =
     (case rev (dropWhile (\<lambda>c. c = CHR ''0'') (rev ds)) of [] \<Rightarrow> ''0'' | c # cs \<Rightarrow> c # cs)"

definition float_str :: "float64 \<Rightarrow> string" where
  "float_str v =
     (case v of
        NaN \<Rightarrow> []
      | Fin q \<Rightarrow>
          (let n = \<bar>round_half_even (q * 1000)\<bar>
           in (if q < 0 then ''-'' else []) @ digits (n div 1000) @ ''.''
              @ strip_zeros [digit_char (n mod 1000 div 100), digit_char (n mod 100 div 10),
                             digit_char (n mod 10)]))"

definition csv_field :: "string \<Rightarrow> string" where
  "csv_field s =
     (if list_ex (\<lambda>c. c = CHR '','' \<or> c = CHR 0x22 \<or> c = CHR 0x0A \<or> c = CHR 0x0D) s
      then [CHR 0x22] @ concat (map (\<lambda>c. if c = CHR 0x22 then [c, c] else [c]) s) @ [CHR 0x22]
      else s)"

fun join_comma :: "string list \<Rightarrow> string" where
  "join_comma [] = []"
| "join_comma [s] = s"
| "join_comma (s # t # ss) = s @ '','' @ join_comma (t # ss)"

definition csv_line :: "string list \<Rightarrow> string" where
  "csv_line fs = join_comma (map csv_field fs) @ [CHR 0x0A]"

definition to_csv :: "frame \<Rightarrow> string" where
  "to_csv t =
     csv_line (''Company'' # map fst (frame_columns t))
     @ csv_line (''Metric'' # map snd (frame_columns t))
     @ csv_line (''YearLabel'' # map (\<lambda>c. []) (frame_columns t))
     @ concat (map (\<lambda>(y, vs). csv_line (y # map float_str vs))
                 (zip (frame_index t) (frame_values t)))"

text \<open>The frame that is serialised: \<open>table_df.round(3)\<close>.\<close>

definition table_df :: "globals \<Rightarrow> string list \<Rightarrow> int \<Rightarrow> int \<Rightarrow> frame" where
  "table_df G metrics yr_min yr_max = round_frame (pivot_table (filtered (df G) metrics yr_min yr_max))"

text \<open>
  The callback of the charts. \<open>metric_groups[group]\<close> raises \<open>KeyError\<close> for a key that is
  not in the dictionary, and \<open>metrics[0]\<close> raises \<open>IndexError\<close> on an empty list, after the
  main chart has been built.
\<close>

definition update_charts ::
  "globals \<Rightarrow> string \<Rightarrow> string \<Rightarrow> int \<times> int \<Rightarrow> error + (figure \<times> figure \<times> component)" where
  "update_charts G company grp year_range =
     (case year_range of (yr_min, yr_max) \<Rightarrow>
        (case map_of (metric_groups G) grp of
           None \<Rightarrow> Inl (KeyError grp)
         | Some metrics \<Rightarrow>
             (let dff = filtered (df G) metrics yr_min yr_max;
                  fig = main_chart G dff company grp metrics
              in (case metrics of
                    [] \<Rightarrow> Inl IndexError
                  | primary # rest \<Rightarrow>
                      (let spark = spark_chart G dff company primary;
                           table_text = to_csv (table_df G metrics yr_min yr_max)
                       in Inr (fig, spark, Pre table_text))))))"

section \<open>The callbacks statement by statement\<close>

text \<open>
  The definitions above give the value a callback returns. The definitions of this section
  follow the same source lines statement by statement, to track what the callbacks change.
  The state holds the module-level names and the objects a callback creates and then changes
  in place: the list \<open>cards\<close>, the list \<open>insight_children\<close>, the figures \<open>fig\<close> and
  \<open>spark\<close> and the dictionary \<open>marker\<close>. An assignment or a call that changes an object
  (\<open>append\<close>, \<open>add_trace\<close>, \<open>update_layout\<close>, an item assignment) is an update of its
  field. The local names that are bound once and only read (\<open>metrics\<close>, \<open>dff\<close>, \<open>s\<close>,
  \<open>primary\<close>, the values of a card) are bound by \<open>let\<close>: indexing a frame with a mask,
  \<open>sort_values\<close>, \<open>pivot_table\<close> and \<open>round\<close> return new frames, and \<open>metrics\<close>, the
  list object held by the catalog, is only iterated over and indexed. A \<open>for\<close> loop is a
  \<^const>\<open>fold\<close> of its body over the list it iterates.
\<close>

record pystate =
  module_state :: globals
  cards :: "component list"
  insight_children :: "component list"
  fig :: figure
  spark :: figure
  marker :: marker

text \<open>The body of the loop that builds the cards, and of the loop that builds the
  insights.\<close>

definition card_stmts :: "string \<Rightarrow> string \<Rightarrow> pystate \<Rightarrow> pystate" where
  "card_stmts company metric st =
     (let body =
        (if company = ''Both'' then
           (let a_val = kpi_latest (df (module_state st)) ''Ambuja Cements'' metric;
                u_val = kpi_latest (df (module_state st)) ''UltraTech Cement'' metric
            in Div [Div [Str metric],
                    Div [Div [Div [Str ''Ambuja''], Div [Str (fmt_or_dash a_val)]],
                         Div [Div [Str ''UltraTech''], Div [Str (fmt_or_dash u_val)]]]])
         else
           (let val = kpi_latest (df (module_state st)) company metric
            in Div [Div [Str metric], Div [Str (fmt_or_dash val)]]));
          card = Div [body]
      in st\<lparr>cards := cards st @ [card]\<rparr>)"

definition insight_stmts :: "string \<Rightarrow> pystate \<Rightarrow> pystate" where
  "insight_stmts metric st =
     st\<lparr>insight_children := insight_children st
          @ [Div [Strong (metric @ '': ''),
                  Str (get_or (insights (module_state st)) metric ''No insight available.'')]]\<rparr>"

definition update_kpis_and_insights_stmts ::
  "string \<Rightarrow> string \<Rightarrow> pystate \<Rightarrow> (error + (component list \<times> component list)) \<times> pystate" where
  "update_kpis_and_insights_stmts company grp st =
     (let metrics = get_or (metric_groups (module_state st)) grp [];
          st1 = st\<lparr>cards := []\<rparr>;
          st2 = fold (card_stmts company) metrics st1;
          st3 = st2\<lparr>insight_children := [H4 ''Insights for Selected Ratios'']\<rparr>;
          st4 = fold insight_stmts metrics st3
      in (Inr (cards st4, insight_children st4), st4))"

text \<open>The bodies of the loops of the main chart, for both companies and for one.\<close>

definition both_bar_stmts :: "row list \<Rightarrow> string \<Rightarrow> string \<Rightarrow> pystate \<Rightarrow> pystate" where
  "both_bar_stmts dff metric cname st =
     (let s = sort_key Year (filter (\<lambda>r. Metric r = metric \<and> Company r = cname) dff);
          st1 = st\<lparr>marker := \<lparr>marker_color = get_or (metric_colors (module_state st)) metric ''#000000'',
                                marker_pattern = None\<rparr>\<rparr>;
          st2 = (if cname = ''UltraTech Cement''
                 then st1\<lparr>marker := (marker st1)\<lparr>marker_pattern := Some ''/''\<rparr>\<rparr>
                 else st1)
      in st2\<lparr>fig := (fig st2)\<lparr>traces := traces (fig st2)
            @ [Bar (map YearLabel s) (map Value s) (cname @ '' '' @ mdash @ '' '' @ metric)
                   (bar_text (map Value s)) (marker st2)]\<rparr>\<rparr>)"

definition both_metric_stmts :: "row list \<Rightarrow> string \<Rightarrow> pystate \<Rightarrow> pystate" where
  "both_metric_stmts dff metric st =
     fold (both_bar_stmts dff metric) [''Ambuja Cements'', ''UltraTech Cement''] st"

definition single_bar_stmts :: "row list \<Rightarrow> string \<Rightarrow> string \<Rightarrow> pystate \<Rightarrow> pystate" where
  "single_bar_stmts dff company metric st =
     (let s = sort_key Year (filter (\<lambda>r. Company r = company \<and> Metric r = metric) dff);
          st1 = st\<lparr>marker := \<lparr>marker_color = get_or (metric_colors (module_state st)) metric ''#000000'',
                                marker_pattern = None\<rparr>\<rparr>
      in st1\<lparr>fig := (fig st1)\<lparr>traces := traces (fig st1)
            @ [Bar (map YearLabel s) (map Value s) metric (bar_text (map Value s)) (marker st1)]\<rparr>\<rparr>)"

text \<open>The statement that adds one line to the sparkline.\<close>

definition spark_stmts :: "row list \<Rightarrow> string \<Rightarrow> string \<Rightarrow> pystate \<Rightarrow> pystate" where
  "spark_stmts dff primary cname st =
     (let s = sort_key Year (filter (\<lambda>r. Metric r = primary \<and> Company r = cname) dff)
      in st\<lparr>spark := (spark st)\<lparr>traces := traces (spark st)
            @ [Scatter (map YearLabel s) (map Value s) cname
                 (get_or (company_colors (module_state st)) cname ''#000000'')]\<rparr>\<rparr>)"

text \<open>
  \<open>go.Figure()\<close> is a figure without traces and without a title. The callback raises at
  \<open>metric_groups[group]\<close> before it has created anything, and at \<open>metrics[0]\<close> after it has
  built the main chart and created the empty sparkline.
\<close>

definition update_charts_stmts ::
  "string \<Rightarrow> string \<Rightarrow> int \<times> int \<Rightarrow> pystate
     \<Rightarrow> (error + (figure \<times> figure \<times> component)) \<times> pystate" where
  "update_charts_stmts company grp year_range st =
     (case year_range of (yr_min, yr_max) \<Rightarrow>
        (case map_of (metric_groups (module_state st)) grp of
           None \<Rightarrow> (Inl (KeyError grp), st)
         | Some metrics \<Rightarrow>
             (let dff = filtered (df (module_state st)) metrics yr_min yr_max;
                  st1 = st\<lparr>fig := \<lparr>traces = [], layout_title = []\<rparr>\<rparr>;
                  st2 =
                    (if company = ''Both'' then
                       (let st' = fold (both_metric_stmts dff) metrics st1
                        in st'\<lparr>fig := (fig st')\<lparr>layout_title :=
                              ''Comparison '' @ mdash @ '' grouped by metric & company''\<rparr>\<rparr>)
                     else
                       (let st' = fold (single_bar_stmts dff company) metrics st1
                        in st'\<lparr>fig := (fig st')\<lparr>layout_title :=
                              company @ '' '' @ mdash @ '' '' @ title grp\<rparr>\<rparr>));
                  st3 = st2\<lparr>spark := \<lparr>traces = [], layout_title = []\<rparr>\<rparr>
              in (case metrics of
                    [] \<Rightarrow> (Inl IndexError, st3)
                  | primary # rest \<Rightarrow>
                      (let st4 =
                             (if company = ''Both''
                              then fold (spark_stmts dff primary)
                                     [''Ambuja Cements'', ''UltraTech Cement''] st3
                              else spark_stmts dff primary company st3);
                           st5 = st4\<lparr>spark := (spark st4)\<lparr>layout_title :=
                                   ''Trend '' @ mdash @ '' '' @ primary\<rparr>\<rparr>;
                           table_text = to_csv (round_frame (pivot_table dff))
                       in (Inr (fig st5, spark st5, Pre table_text), st5))))))"

section \<open>The wiring of the callbacks\<close>

text \<open>
  The selection is the value of the three controls. The decorators wire the cards and the
  insights to \<open>company-select\<close> and \<open>metric-group\<close> only, and the charts and the table to
  all three controls. One dispatch runs both callbacks, statement by statement, one after
  the other on the same state, and returns their views and the state they leave behind.
\<close>

record selection =
  company_select :: string
  metric_group :: string
  year_range :: "int \<times> int"

definition dispatch ::
  "selection \<Rightarrow> pystate \<Rightarrow>
     ((error + (component list \<times> component list)) \<times> (error + (figure \<times> figure \<times> component)))
     \<times> pystate" where
  "dispatch sel st =
     (let (kpis, st1) =
            update_kpis_and_insights_stmts (company_select sel) (metric_group sel) st;
          (charts, st2) =
            update_charts_stmts (company_select sel) (metric_group sel) (year_range sel) st1
      in ((kpis, charts), st2))"

text \<open>
  The state once the module has been loaded. No callback has run, so none of their objects
  exists yet; the fields hold empty objects, and each callback creates an object before it
  reads or changes it.
\<close>

definition loaded_state :: pystate where
  "loaded_state =
     \<lparr>module_state = module_globals, cards = [], insight_children = [],
      fig = \<lparr>traces = [], layout_title = []\<rparr>, spark = \<lparr>traces = [], layout_title = []\<rparr>,
      marker = \<lparr>marker_color = [], marker_pattern = None\<rparr>\<rparr>"

section \<open>Clamping of a year\<close>

text \<open>
  The specification speaks of clamping a year range to the bounds of the dataset, 2021 and
  2025. The source has no such step; the function below states what clamping a bound would
  be, so that the callback can be compared with it.
\<close>

definition clamp_year :: "int \<Rightarrow> int" where
  "clamp_year y = max 2021 (min 2025 y)"

section \<open>Facts about the module state\<close>

lemma metric_groups_module:
  "metric_groups module_globals =
     [(''liquidity'', [''Current Ratio'', ''Quick Ratio'']),
      (''profitability'', [''Gross Profit Margin'', ''Net Profit Margin'']),
      (''turnover'', [''Inventory Turnover'', ''Asset Turnover'', ''Trade Receivable Turnover'']),
      (''leverage'', [''Interest Coverage Ratio''])]"
  by (simp add: module_globals_def)

lemma df_module: "df module_globals = DataFrame rows"
  by (simp add: module_globals_def)

lemma catalog_cases:
  assumes "map_of (metric_groups module_globals) grp = Some metrics"
  shows "(grp = ''liquidity'' \<and> metrics = [''Current Ratio'', ''Quick Ratio''])
       \<or> (grp = ''profitability'' \<and> metrics = [''Gross Profit Margin'', ''Net Profit Margin''])
       \<or> (grp = ''turnover''
           \<and> metrics = [''Inventory Turnover'', ''Asset Turnover'', ''Trade Receivable Turnover''])
       \<or> (grp = ''leverage'' \<and> metrics = [''Interest Coverage Ratio''])"
  using assms unfolding metric_groups_module
  by (auto split: if_splits)

lemma catalog_nonempty:
  assumes "map_of (metric_groups module_globals) grp = Some metrics"
  shows "metrics \<noteq> []"
  using catalog_cases [OF assms] by auto

section \<open>Facts about the callbacks\<close>

lemma update_charts_ok:
  assumes "map_of (metric_groups G) grp = Some (primary # rest)"
  shows "update_charts G company grp (a, b) =
     Inr (main_chart G (filtered (df G) (primary # rest) a b) company grp (primary # rest),
          spark_chart G (filtered (df G) (primary # rest) a b) company primary,
          Pre (to_csv (table_df G (primary # rest) a b)))"
  using assms by (simp add: update_charts_def Let_def)

lemma update_charts_unknown:
  assumes "map_of (metric_groups G) grp = None"
  shows "update_charts G company grp yr = Inl (KeyError grp)"
  using assms by (simp add: update_charts_def split: prod.splits)

lemma kpis_unknown:
  assumes "map_of (metric_groups G) grp = None"
  shows "update_kpis_and_insights G company grp = Inr ([], [H4 ''Insights for Selected Ratios''])"
  using assms by (simp add: update_kpis_and_insights_def get_or_def)

section \<open>Unknown group keys\<close>

text \<open>
  Claim C1, as amended. For a group key that is not in the catalog the callback of the charts,
  the sparkline and the table fails with a \<open>KeyError\<close> that names the key. The callback of
  the cards does not fail: \<open>metric_groups.get(group, [])\<close> falls back to no metrics, so it
  returns no cards and an insights section that holds its heading only.
\<close>

theorem unknown_group_charts_fail_kpis_empty:
  assumes "map_of (metric_groups G) grp = None"
  shows "update_charts G company grp yr = Inl (KeyError grp)
       \<and> update_kpis_and_insights G company grp = Inr ([], [H4 ''Insights for Selected Ratios''])"
  using update_charts_unknown [OF assms] kpis_unknown [OF assms] by simp

theorem unknown_group_charts_fail_kpis_empty_witness:
  "map_of (metric_groups module_globals) ''unknown'' = None
   \<and> update_charts module_globals ''Both'' ''unknown'' (2021, 2025) = Inl (KeyError ''unknown'')
   \<and> update_kpis_and_insights module_globals ''Both'' ''unknown''
       = Inr ([], [H4 ''Insights for Selected Ratios''])"
proof -
  have h: "map_of (metric_groups module_globals) ''unknown'' = None"
    by (simp add: metric_groups_module)
  from unknown_group_charts_fail_kpis_empty [OF h, of "''Both''" "(2021, 2025)"] h
  show ?thesis by simp
qed

text \<open>
  Claim C1 as it is written asks the cards to fail too. At the key \<open>unknown\<close>, which the
  catalog does not hold, the callback of the cards returns a result.
\<close>

theorem unknown_group_kpis_counterexample:
  "map_of (metric_groups module_globals) ''unknown'' = None
   \<and> update_kpis_and_insights module_globals ''Both'' ''unknown''
       = Inr ([], [H4 ''Insights for Selected Ratios''])"
proof -
  have h: "map_of (metric_groups module_globals) ''unknown'' = None"
    by (simp add: metric_groups_module)
  from kpis_unknown [OF h] h show ?thesis by simp
qed

section \<open>The primary metric of a group\<close>

text \<open>
  Claim C10. Every group of the catalog maps to a non-empty list of metrics, so \<open>metrics[0]\<close>
  is defined for it: the callback of the charts returns a result, and its sparkline is the one
  of the first metric of the group. This includes the group \<open>leverage\<close>, which has one metric.
\<close>

theorem catalog_groups_have_primary_metric:
  assumes "map_of (metric_groups module_globals) grp = Some metrics"
  shows "metrics \<noteq> []
       \<and> (\<exists>fig tbl. update_charts module_globals company grp (a, b)
             = Inr (fig,
                    spark_chart module_globals (filtered (df module_globals) metrics a b)
                      company (hd metrics),
                    tbl))"
proof -
  from catalog_nonempty [OF assms] obtain primary rest where m: "metrics = primary # rest"
    by (cases metrics) auto
  from assms m have "map_of (metric_groups module_globals) grp = Some (primary # rest)" by simp
  from update_charts_ok [OF this, of company a b] m show ?thesis by simp
qed

theorem catalog_groups_have_primary_metric_witness:
  "map_of (metric_groups module_globals) ''leverage'' = Some [''Interest Coverage Ratio'']
   \<and> [''Interest Coverage Ratio''] \<noteq> []
   \<and> (\<exists>fig tbl. update_charts module_globals ''Both'' ''leverage'' (2021, 2025)
         = Inr (fig,
                spark_chart module_globals
                  (filtered (df module_globals) [''Interest Coverage Ratio''] 2021 2025)
                  ''Both'' (hd [''Interest Coverage Ratio'']),
                tbl))"
proof -
  have h: "map_of (metric_groups module_globals) ''leverage'' = Some [''Interest Coverage Ratio'']"
    by (simp add: metric_groups_module)
  from catalog_groups_have_primary_metric [OF h, of "''Both''" 2021 2025] h
  show ?thesis by blast
qed

section \<open>The values and the effects of the statements\<close>

lemma fold_card_stmts:
  "fold (card_stmts company) metrics st =
     st\<lparr>cards := cards st @ map (\<lambda>metric.
        let body =
              (if company = ''Both'' then
                 (let a_val = kpi_latest (df (module_state st)) ''Ambuja Cements'' metric;
                      u_val = kpi_latest (df (module_state st)) ''UltraTech Cement'' metric
                  in Div [Div [Str metric],
                          Div [Div [Div [Str ''Ambuja''], Div [Str (fmt_or_dash a_val)]],
                               Div [Div [Str ''UltraTech''], Div [Str (fmt_or_dash u_val)]]]])
               else
                 (let val = kpi_latest (df (module_state st)) company metric
                  in Div [Div [Str metric], Div [Str (fmt_or_dash val)]]))
        in Div [body]) metrics\<rparr>"
  by (induction metrics arbitrary: st) (simp_all add: card_stmts_def Let_def)

lemma fold_insight_stmts:
  "fold insight_stmts metrics st =
     st\<lparr>insight_children := insight_children st @ map (\<lambda>metric.
        Div [Strong (metric @ '': ''),
             Str (get_or (insights (module_state st)) metric ''No insight available.'')]) metrics\<rparr>"
  by (induction metrics arbitrary: st) (simp_all add: insight_stmts_def)

lemma kpis_stmts_value:
  "fst (update_kpis_and_insights_stmts company grp st)
     = update_kpis_and_insights (module_state st) company grp"
  by (simp add: update_kpis_and_insights_stmts_def update_kpis_and_insights_def Let_def
        fold_card_stmts fold_insight_stmts)

lemma kpis_stmts_module:
  "module_state (snd (update_kpis_and_insights_stmts company grp st)) = module_state st"
  by (simp add: update_kpis_and_insights_stmts_def Let_def fold_card_stmts fold_insight_stmts)


lemma both_metric_stmts_eq:
  "both_metric_stmts dff metric st =
     st\<lparr>marker := \<lparr>marker_color = get_or (metric_colors (module_state st)) metric ''#000000'',
                     marker_pattern = Some ''/''\<rparr>,
        fig := (fig st)\<lparr>traces := traces (fig st) @ map (\<lambda>comp.
          let s = sort_key Year (filter (\<lambda>r. Metric r = metric \<and> Company r = comp) dff);
              m = \<lparr>marker_color = get_or (metric_colors (module_state st)) metric ''#000000'',
                   marker_pattern = (if comp = ''UltraTech Cement'' then Some ''/'' else None)\<rparr>
          in Bar (map YearLabel s) (map Value s) (comp @ '' '' @ mdash @ '' '' @ metric)
                 (bar_text (map Value s)) m)
          [''Ambuja Cements'', ''UltraTech Cement'']\<rparr>\<rparr>"
  by (simp add: both_metric_stmts_def both_bar_stmts_def Let_def)

lemma fold_both_metric_stmts_module:
  "module_state (fold (both_metric_stmts dff) metrics st) = module_state st"
  by (induction metrics arbitrary: st) (simp_all add: both_metric_stmts_eq)

lemma fold_both_metric_stmts_fig:
  "fig (fold (both_metric_stmts dff) metrics st) =
     (fig st)\<lparr>traces := traces (fig st) @ concat (map (\<lambda>metric. map (\<lambda>comp.
        let s = sort_key Year (filter (\<lambda>r. Metric r = metric \<and> Company r = comp) dff);
            m = \<lparr>marker_color = get_or (metric_colors (module_state st)) metric ''#000000'',
                 marker_pattern = (if comp = ''UltraTech Cement'' then Some ''/'' else None)\<rparr>
        in Bar (map YearLabel s) (map Value s) (comp @ '' '' @ mdash @ '' '' @ metric)
               (bar_text (map Value s)) m)
        [''Ambuja Cements'', ''UltraTech Cement'']) metrics)\<rparr>"
  by (induction metrics arbitrary: st) (simp_all add: both_metric_stmts_eq)

lemma single_bar_stmts_eq:
  "single_bar_stmts dff company metric st =
     st\<lparr>marker := \<lparr>marker_color = get_or (metric_colors (module_state st)) metric ''#000000'',
                     marker_pattern = None\<rparr>,
        fig := (fig st)\<lparr>traces := traces (fig st) @
          [let s = sort_key Year (filter (\<lambda>r. Company r = company \<and> Metric r = metric) dff);
               m = \<lparr>marker_color = get_or (metric_colors (module_state st)) metric ''#000000'',
                    marker_pattern = None\<rparr>
           in Bar (map YearLabel s) (map Value s) metric (bar_text (map Value s)) m]\<rparr>\<rparr>"
  by (simp add: single_bar_stmts_def Let_def)

lemma fold_single_bar_stmts_module:
  "module_state (fold (single_bar_stmts dff company) metrics st) = module_state st"
  by (induction metrics arbitrary: st) (simp_all add: single_bar_stmts_eq)

lemma fold_single_bar_stmts_fig:
  "fig (fold (single_bar_stmts dff company) metrics st) =
     (fig st)\<lparr>traces := traces (fig st) @ map (\<lambda>metric.
        let s = sort_key Year (filter (\<lambda>r. Company r = company \<and> Metric r = metric) dff);
            m = \<lparr>marker_color = get_or (metric_colors (module_state st)) metric ''#000000'',
                 marker_pattern = None\<rparr>
        in Bar (map YearLabel s) (map Value s) metric (bar_text (map Value s)) m) metrics\<rparr>"
  by (induction metrics arbitrary: st) (simp_all add: single_bar_stmts_eq)

lemma spark_both_eq:
  "fold (spark_stmts dff primary) [''Ambuja Cements'', ''UltraTech Cement''] st =
     st\<lparr>spark := (spark st)\<lparr>traces := traces (spark st) @ map (\<lambda>comp.
        let s = sort_key Year (filter (\<lambda>r. Metric r = primary \<and> Company r = comp) dff)
        in Scatter (map YearLabel s) (map Value s) comp
             (get_or (company_colors (module_state st)) comp ''#000000''))
        [''Ambuja Cements'', ''UltraTech Cement'']\<rparr>\<rparr>"
  by (simp add: spark_stmts_def Let_def)

lemma charts_stmts_value:
  "fst (update_charts_stmts company grp yr st)
     = update_charts (module_state st) company grp yr"
  by (simp add: update_charts_stmts_def update_charts_def table_df_def main_chart_def
        spark_chart_def spark_both_eq spark_stmts_def Let_def
        fold_both_metric_stmts_module fold_both_metric_stmts_fig
        fold_single_bar_stmts_module fold_single_bar_stmts_fig
        del: fold.simps
        split: prod.splits option.splits list.splits)

lemma charts_stmts_module:
  "module_state (snd (update_charts_stmts company grp yr st)) = module_state st"
  by (simp add: update_charts_stmts_def spark_both_eq spark_stmts_def Let_def
        fold_both_metric_stmts_module fold_single_bar_stmts_module
        del: fold.simps
        split: prod.splits option.splits list.splits)

lemma dispatch_value:
  "fst (dispatch sel st) =
     (update_kpis_and_insights (module_state st) (company_select sel) (metric_group sel),
      update_charts (module_state st) (company_select sel) (metric_group sel) (year_range sel))"
proof -
  obtain kpis st1 where k: "update_kpis_and_insights_stmts (company_select sel) (metric_group sel) st
      = (kpis, st1)" by (cases "update_kpis_and_insights_stmts (company_select sel) (metric_group sel) st")
  obtain charts st2 where c: "update_charts_stmts (company_select sel) (metric_group sel)
      (year_range sel) st1 = (charts, st2)"
    by (cases "update_charts_stmts (company_select sel) (metric_group sel) (year_range sel) st1")
  from k have k1: "kpis = update_kpis_and_insights (module_state st) (company_select sel) (metric_group sel)"
    using kpis_stmts_value [of "company_select sel" "metric_group sel" st] by simp
  from k have k2: "module_state st1 = module_state st"
    using kpis_stmts_module [of "company_select sel" "metric_group sel" st] by simp
  from c have c1: "charts = update_charts (module_state st1) (company_select sel) (metric_group sel)
      (year_range sel)"
    using charts_stmts_value [of "company_select sel" "metric_group sel" "year_range sel" st1] by simp
  show ?thesis by (simp add: dispatch_def k c k1 c1 k2)
qed

lemma dispatch_module: "module_state (snd (dispatch sel st)) = module_state st"
proof -
  obtain kpis st1 where k: "update_kpis_and_insights_stmts (company_select sel) (metric_group sel) st
      = (kpis, st1)" by (cases "update_kpis_and_insights_stmts (company_select sel) (metric_group sel) st")
  obtain charts st2 where c: "update_charts_stmts (company_select sel) (metric_group sel)
      (year_range sel) st1 = (charts, st2)"
    by (cases "update_charts_stmts (company_select sel) (metric_group sel) (year_range sel) st1")
  from k have k2: "module_state st1 = module_state st"
    using kpis_stmts_module [of "company_select sel" "metric_group sel" st] by simp
  from c have c2: "module_state st2 = module_state st1"
    using charts_stmts_module [of "company_select sel" "metric_group sel" "year_range sel" st1] by simp
  show ?thesis by (simp add: dispatch_def k c k2 c2)
qed

lemma dispatch_fold_module:
  "module_state (fold (\<lambda>s. snd \<circ> dispatch s) sels st) = module_state st"
  by (induction sels arbitrary: st) (simp_all add: dispatch_module)

section \<open>Determinism\<close>

text \<open>
  Claim C9. The statements of the two callbacks change only the objects the callbacks
  create: a dispatch leaves the module state as it found it, and the views it returns (cards,
  insights, main chart, sparkline and table text) are the values of the two callbacks on the
  module state and the selection, whatever objects earlier calls have left behind. So a
  second dispatch of the same selection returns the same views as the first, and so does a
  dispatch that follows any sequence of other dispatches.
\<close>

theorem dispatch_twice_same_views:
  "module_state (snd (dispatch sel st)) = module_state st
   \<and> fst (dispatch sel st) =
       (update_kpis_and_insights (module_state st) (company_select sel) (metric_group sel),
        update_charts (module_state st) (company_select sel) (metric_group sel) (year_range sel))
   \<and> fst (dispatch sel (snd (dispatch sel st))) = fst (dispatch sel st)
   \<and> fst (dispatch sel (fold (\<lambda>s. snd \<circ> dispatch s) sels st)) = fst (dispatch sel st)"
  by (simp add: dispatch_value dispatch_module dispatch_fold_module)

section \<open>The series of the main chart\<close>

lemma main_chart_names:
  "map trace_name (traces (main_chart G dff company grp metrics)) =
     (if company = ''Both''
      then concat (map (\<lambda>metric. [''Ambuja Cements'' @ '' '' @ mdash @ '' '' @ metric,
                                    ''UltraTech Cement'' @ '' '' @ mdash @ '' '' @ metric]) metrics)
      else metrics)"
  by (simp add: main_chart_def Let_def map_concat comp_def)

lemma length_concat_pairs: "length (concat (map (\<lambda>m. [f m, g m]) ms)) = 2 * length ms"
  by (induction ms) simp_all

text \<open>
  Claim C6. For a group of the catalog the main chart has one series per metric and company
  when the company is \<open>Both\<close>, named after the company and the metric, and one series per
  metric, named after the metric, otherwise. The witness below instantiates it at the group
  \<open>liquidity\<close> and the range 2021 to 2025: four series for \<open>Both\<close>, two for Ambuja Cements.
\<close>

theorem chart_series_per_metric_and_company:
  assumes "map_of (metric_groups module_globals) grp = Some metrics"
  shows "\<exists>fig spark tbl.
           update_charts module_globals company grp (yr_min, yr_max) = Inr (fig, spark, tbl)
           \<and> map trace_name (traces fig) =
               (if company = ''Both''
                then concat (map (\<lambda>metric. [''Ambuja Cements'' @ '' '' @ mdash @ '' '' @ metric,
                                              ''UltraTech Cement'' @ '' '' @ mdash @ '' '' @ metric])
                               metrics)
                else metrics)
           \<and> length (traces fig) = (if company = ''Both'' then 2 * length metrics else length metrics)"
proof -
  from catalog_nonempty [OF assms] obtain primary rest where m: "metrics = primary # rest"
    by (cases metrics) auto
  let ?fig = "main_chart module_globals (filtered (df module_globals) metrics yr_min yr_max)
                company grp metrics"
  from assms m have "map_of (metric_groups module_globals) grp = Some (primary # rest)" by simp
  from update_charts_ok [OF this, of company yr_min yr_max] m
  have ok: "\<exists>spark tbl.
              update_charts module_globals company grp (yr_min, yr_max) = Inr (?fig, spark, tbl)"
    by simp
  have names: "map trace_name (traces ?fig) =
               (if company = ''Both''
                then concat (map (\<lambda>metric. [''Ambuja Cements'' @ '' '' @ mdash @ '' '' @ metric,
                                              ''UltraTech Cement'' @ '' '' @ mdash @ '' '' @ metric])
                               metrics)
                else metrics)"
    by (rule main_chart_names)
  have "length (traces ?fig) = length (map trace_name (traces ?fig))" by simp
  also have "\<dots> = (if company = ''Both'' then 2 * length metrics else length metrics)"
    unfolding names by (simp add: length_concat_pairs)
  finally have len: "length (traces ?fig)
      = (if company = ''Both'' then 2 * length metrics else length metrics)" .
  from ok names len show ?thesis by blast
qed

theorem chart_series_per_metric_and_company_witness:
  "map_of (metric_groups module_globals) ''liquidity'' = Some [''Current Ratio'', ''Quick Ratio'']
   \<and> (\<exists>fig spark tbl.
         update_charts module_globals ''Both'' ''liquidity'' (2021, 2025) = Inr (fig, spark, tbl)
         \<and> length (traces fig) = 4)
   \<and> (\<exists>fig spark tbl.
         update_charts module_globals ''Ambuja Cements'' ''liquidity'' (2021, 2025)
           = Inr (fig, spark, tbl)
         \<and> length (traces fig) = 2)"
proof -
  have h: "map_of (metric_groups module_globals) ''liquidity''
             = Some [''Current Ratio'', ''Quick Ratio'']"
    by (simp add: metric_groups_module)
  from chart_series_per_metric_and_company [OF h, of "''Both''" 2021 2025]
  have a: "\<exists>fig spark tbl.
         update_charts module_globals ''Both'' ''liquidity'' (2021, 2025) = Inr (fig, spark, tbl)
         \<and> length (traces fig) = 4" by auto
  from chart_series_per_metric_and_company [OF h, of "''Ambuja Cements''" 2021 2025]
  have b: "\<exists>fig spark tbl.
         update_charts module_globals ''Ambuja Cements'' ''liquidity'' (2021, 2025)
           = Inr (fig, spark, tbl)
         \<and> length (traces fig) = 2" by auto
  from h a b show ?thesis by blast
qed

section \<open>Reachable selections\<close>

text \<open>
  Claim C7. For each of the three companies of the dropdown, each group of the catalog and
  each year range within 2021 to 2025, both callbacks return a result. The witness is the
  single-year range 2023 to 2023 on the group \<open>turnover\<close>, whose first metric has no value
  for UltraTech Cement in 2021.
\<close>

theorem reachable_selections_do_not_fail:
  assumes "company \<in> {''Ambuja Cements'', ''UltraTech Cement'', ''Both''}"
    and "grp \<in> fst ` set (metric_groups module_globals)"
    and "2021 \<le> yr_min" and "yr_min \<le> yr_max" and "yr_max \<le> 2025"
  shows "(\<exists>cards ins. update_kpis_and_insights module_globals company grp = Inr (cards, ins))
       \<and> (\<exists>fig spark tbl.
             update_charts module_globals company grp (yr_min, yr_max) = Inr (fig, spark, tbl))"
proof -
  from assms(2) obtain metrics where g: "map_of (metric_groups module_globals) grp = Some metrics"
    by (metis map_of_eq_None_iff not_Some_eq)
  from catalog_nonempty [OF g] obtain primary rest where m: "metrics = primary # rest"
    by (cases metrics) auto
  from g m have "map_of (metric_groups module_globals) grp = Some (primary # rest)" by simp
  from update_charts_ok [OF this, of company yr_min yr_max]
  have "\<exists>fig spark tbl.
          update_charts module_globals company grp (yr_min, yr_max) = Inr (fig, spark, tbl)"
    by blast
  moreover have "\<exists>cards ins. update_kpis_and_insights module_globals company grp = Inr (cards, ins)"
    by (simp add: update_kpis_and_insights_def Let_def)
  ultimately show ?thesis by blast
qed

theorem reachable_selections_do_not_fail_witness:
  "''Both'' \<in> {''Ambuja Cements'', ''UltraTech Cement'', ''Both''}
   \<and> ''turnover'' \<in> fst ` set (metric_groups module_globals)
   \<and> (2021::int) \<le> 2023 \<and> (2023::int) \<le> 2023 \<and> (2023::int) \<le> 2025
   \<and> (\<exists>cards ins. update_kpis_and_insights module_globals ''Both'' ''turnover'' = Inr (cards, ins))
   \<and> (\<exists>fig spark tbl.
         update_charts module_globals ''Both'' ''turnover'' (2023, 2023) = Inr (fig, spark, tbl))"
proof -
  have a: "''Both'' \<in> {''Ambuja Cements'', ''UltraTech Cement'', ''Both''}" by simp
  have b: "''turnover'' \<in> fst ` set (metric_groups module_globals)"
    by (simp add: metric_groups_module)
  have c: "(2021::int) \<le> 2023" "(2023::int) \<le> 2023" "(2023::int) \<le> 2025" by simp_all
  from reachable_selections_do_not_fail [OF a b c] a b c show ?thesis by blast
qed

section \<open>Evaluations on the dataset\<close>

lemma ultratech_current_ratio_latest:
  "kpi_latest (df module_globals) ''UltraTech Cement'' ''Current Ratio'' = Some (Fin 0.44)"
  by code_simp

lemma ultratech_liquidity_cards:
  "map_sum id fst (update_kpis_and_insights module_globals ''UltraTech Cement'' ''liquidity'')
   = Inr [Div [Div [Div [Str ''Current Ratio''], Div [Str ''0.44'']]],
          Div [Div [Div [Str ''Quick Ratio''], Div [Str ''0.17'']]]]"
  by code_simp

lemma ultratech_turnover_bars:
  "map (\<lambda>t. (trace_name t, trace_x t, trace_y t, trace_text t))
     (traces (main_chart module_globals
        (filtered (df module_globals)
           [''Inventory Turnover'', ''Asset Turnover'', ''Trade Receivable Turnover''] 2021 2025)
        ''UltraTech Cement'' ''turnover''
        [''Inventory Turnover'', ''Asset Turnover'', ''Trade Receivable Turnover'']))
   = [(''Inventory Turnover'', [''Mar-21'', ''Mar-22'', ''Mar-23'', ''Mar-24'', ''Mar-25''],
       [NaN, Fin 5.59, Fin 6.00, Fin 4.97, Fin 4.41], [''nan'', ''5.59'', ''6.00'', ''4.97'', ''4.41'']),
      (''Asset Turnover'', [''Mar-21'', ''Mar-22'', ''Mar-23'', ''Mar-24'', ''Mar-25''],
       [NaN, Fin 0.86, Fin 1.01, Fin 1.07, Fin 0.92], [''nan'', ''0.86'', ''1.01'', ''1.07'', ''0.92'']),
      (''Trade Receivable Turnover'', [''Mar-21'', ''Mar-22'', ''Mar-23'', ''Mar-24'', ''Mar-25''],
       [NaN, Fin 2.54, Fin 2.58, Fin 2.55, Fin 2.28], [''nan'', ''2.54'', ''2.58'', ''2.55'', ''2.28''])]"
  by code_simp


lemma ultratech_current_ratio_2021:
  "\<lparr>Company = ''UltraTech Cement'', Metric = ''Current Ratio'', Value = Fin 0.37,
     YearLabel = ''Mar-21'', Year = 2021\<rparr> \<in> set (df module_globals)"
  by code_simp

section \<open>The latest value shown on a card\<close>

lemma sort_key_last_max:
  assumes "xs \<noteq> []"
  shows "last (sort_key f xs) \<in> set xs \<and> (\<forall>x \<in> set xs. f x \<le> f (last (sort_key f xs)))"
proof -
  let ?ys = "sort_key f xs"
  have ne: "?ys \<noteq> []" using assms by (metis length_sort length_0_conv)
  have srt: "sorted (map f ?ys)" by simp
  have "last ?ys \<in> set ?ys" using ne by (rule last_in_set)
  then have mem: "last ?ys \<in> set xs" by simp
  have "\<forall>x \<in> set ?ys. f x \<le> f (last ?ys)"
  proof
    fix x assume "x \<in> set ?ys"
    then obtain i where i: "i < length ?ys" "?ys ! i = x" by (metis in_set_conv_nth)
    have "map f ?ys ! i \<le> map f ?ys ! (length ?ys - 1)"
      using srt i(1) by (intro sorted_nth_mono) auto
    then show "f x \<le> f (last ?ys)" using i ne by (simp add: last_conv_nth)
  qed
  then show ?thesis using mem by simp
qed

lemma kpi_latest_greatest_year:
  assumes "r \<in> set df_local" and "Company r = company" and "Metric r = metric"
  shows "\<exists>r' \<in> set df_local. Company r' = company \<and> Metric r' = metric
           \<and> (\<forall>r'' \<in> set df_local. Company r'' = company \<and> Metric r'' = metric \<longrightarrow> Year r'' \<le> Year r')
           \<and> kpi_latest df_local company metric = Some (Value r')"
proof -
  let ?sub = "filter (\<lambda>r. Company r = company \<and> Metric r = metric) df_local"
  have ne: "?sub \<noteq> []" using assms by (auto simp: filter_empty_conv)
  let ?l = "last (sort_key Year ?sub)"
  from sort_key_last_max [OF ne, of Year]
  have mem: "?l \<in> set ?sub" and mx: "\<forall>x \<in> set ?sub. Year x \<le> Year ?l" by simp_all
  have ne': "sort_key Year ?sub \<noteq> []" using ne by (metis length_sort length_0_conv)
  have "kpi_latest df_local company metric = Some (Value ?l)"
    using ne ne' by (simp add: kpi_latest_def Let_def last_map)
  moreover have "?l \<in> set df_local" "Company ?l = company" "Metric ?l = metric"
    using mem by auto
  moreover have "\<forall>r'' \<in> set df_local. Company r'' = company \<and> Metric r'' = metric \<longrightarrow> Year r'' \<le> Year ?l"
    using mx by auto
  ultimately show ?thesis by blast
qed


lemma kpi_cards:
  "map_sum id fst (update_kpis_and_insights G company grp) =
     Inr (map (\<lambda>m. Div [if company = ''Both''
            then Div [Div [Str m],
                   Div [Div [Div [Str ''Ambuja''],
                             Div [Str (fmt_or_dash (kpi_latest (df G) ''Ambuja Cements'' m))]],
                        Div [Div [Str ''UltraTech''],
                             Div [Str (fmt_or_dash (kpi_latest (df G) ''UltraTech Cement'' m))]]]]
            else Div [Div [Str m], Div [Str (fmt_or_dash (kpi_latest (df G) company m))]]])
          (get_or (metric_groups G) grp []))"
  by (simp add: update_kpis_and_insights_def Let_def)

lemma both_liquidity_cards:
  "map_sum id fst (update_kpis_and_insights module_globals ''Both'' ''liquidity'')
   = Inr [Div [Div [Div [Str ''Current Ratio''],
                    Div [Div [Div [Str ''Ambuja''], Div [Str ''1.55'']],
                         Div [Div [Str ''UltraTech''], Div [Str ''0.44'']]]]],
          Div [Div [Div [Str ''Quick Ratio''],
                    Div [Div [Div [Str ''Ambuja''], Div [Str ''1.30'']],
                         Div [Div [Str ''UltraTech''], Div [Str ''0.17'']]]]]]"
  by code_simp

text \<open>
  Claim C3. For a company and a metric that have a record, \<open>kpi_latest\<close> on the full data
  frame is the value of a record of that company and metric whose year is the greatest among
  all their records. For every company selection and every group, each card shows
  \<open>kpi_latest\<close> of the full data frame, formatted, for the selected company, or for both
  companies when the selection is \<open>Both\<close>. A dispatch returns these cards whatever the year
  range of the selection is. On the dataset, the card of Current Ratio shows 0.44, the
  value of 2025, for UltraTech Cement, and 1.55 and 0.44 for both companies.
\<close>

theorem kpi_latest_ignores_year_range:
  assumes "r \<in> set (df G)" and "Company r = c" and "Metric r = metric"
  shows "(\<exists>r' \<in> set (df G). Company r' = c \<and> Metric r' = metric
            \<and> (\<forall>r'' \<in> set (df G). Company r'' = c \<and> Metric r'' = metric \<longrightarrow> Year r'' \<le> Year r')
            \<and> kpi_latest (df G) c metric = Some (Value r'))
       \<and> map_sum id fst (update_kpis_and_insights G company grp) =
           Inr (map (\<lambda>m. Div [if company = ''Both''
                  then Div [Div [Str m],
                         Div [Div [Div [Str ''Ambuja''],
                                   Div [Str (fmt_or_dash (kpi_latest (df G) ''Ambuja Cements'' m))]],
                              Div [Div [Str ''UltraTech''],
                                   Div [Str (fmt_or_dash (kpi_latest (df G) ''UltraTech Cement'' m))]]]]
                  else Div [Div [Str m], Div [Str (fmt_or_dash (kpi_latest (df G) company m))]]])
                (get_or (metric_groups G) grp []))
       \<and> fst (fst (dispatch \<lparr>company_select = company, metric_group = grp, year_range = yr\<rparr> st))
           = update_kpis_and_insights (module_state st) company grp
       \<and> kpi_latest (df module_globals) ''UltraTech Cement'' ''Current Ratio'' = Some (Fin 0.44)
       \<and> map_sum id fst (fst (fst (dispatch
             \<lparr>company_select = ''UltraTech Cement'', metric_group = ''liquidity'', year_range = yr\<rparr>
             (st\<lparr>module_state := module_globals\<rparr>))))
           = Inr [Div [Div [Div [Str ''Current Ratio''], Div [Str ''0.44'']]],
                  Div [Div [Div [Str ''Quick Ratio''], Div [Str ''0.17'']]]]
       \<and> map_sum id fst (fst (fst (dispatch
             \<lparr>company_select = ''Both'', metric_group = ''liquidity'', year_range = yr\<rparr>
             (st\<lparr>module_state := module_globals\<rparr>))))
           = Inr [Div [Div [Div [Str ''Current Ratio''],
                            Div [Div [Div [Str ''Ambuja''], Div [Str ''1.55'']],
                                 Div [Div [Str ''UltraTech''], Div [Str ''0.44'']]]]],
                  Div [Div [Div [Str ''Quick Ratio''],
                            Div [Div [Div [Str ''Ambuja''], Div [Str ''1.30'']],
                                 Div [Div [Str ''UltraTech''], Div [Str ''0.17'']]]]]]"
proof -
  have a: "\<exists>r' \<in> set (df G). Company r' = c \<and> Metric r' = metric
            \<and> (\<forall>r'' \<in> set (df G). Company r'' = c \<and> Metric r'' = metric \<longrightarrow> Year r'' \<le> Year r')
            \<and> kpi_latest (df G) c metric = Some (Value r')"
    using assms by (rule kpi_latest_greatest_year)
  have b: "fst (fst (dispatch \<lparr>company_select = company, metric_group = grp, year_range = yr\<rparr> st))
           = update_kpis_and_insights (module_state st) company grp"
    by (simp add: dispatch_value)
  have d: "map_sum id fst (fst (fst (dispatch
             \<lparr>company_select = ''UltraTech Cement'', metric_group = ''liquidity'', year_range = yr\<rparr>
             (st\<lparr>module_state := module_globals\<rparr>))))
           = Inr [Div [Div [Div [Str ''Current Ratio''], Div [Str ''0.44'']]],
                  Div [Div [Div [Str ''Quick Ratio''], Div [Str ''0.17'']]]]"
    by (simp add: dispatch_value ultratech_liquidity_cards)
  have e: "map_sum id fst (fst (fst (dispatch
             \<lparr>company_select = ''Both'', metric_group = ''liquidity'', year_range = yr\<rparr>
             (st\<lparr>module_state := module_globals\<rparr>))))
           = Inr [Div [Div [Div [Str ''Current Ratio''],
                            Div [Div [Div [Str ''Ambuja''], Div [Str ''1.55'']],
                                 Div [Div [Str ''UltraTech''], Div [Str ''0.44'']]]]],
                  Div [Div [Div [Str ''Quick Ratio''],
                            Div [Div [Div [Str ''Ambuja''], Div [Str ''1.30'']],
                                 Div [Div [Str ''UltraTech''], Div [Str ''0.17'']]]]]]"
    by (simp add: dispatch_value both_liquidity_cards)
  from a kpi_cards [of G company grp] b ultratech_current_ratio_latest d e
  show ?thesis by (intro conjI)
qed

theorem kpi_latest_ignores_year_range_witness:
  "\<lparr>Company = ''UltraTech Cement'', Metric = ''Current Ratio'', Value = Fin 0.37,
     YearLabel = ''Mar-21'', Year = 2021\<rparr> \<in> set (df module_globals)
   \<and> (\<exists>r' \<in> set (df module_globals).
         Company r' = ''UltraTech Cement'' \<and> Metric r' = ''Current Ratio''
         \<and> (\<forall>r'' \<in> set (df module_globals).
               Company r'' = ''UltraTech Cement'' \<and> Metric r'' = ''Current Ratio''
               \<longrightarrow> Year r'' \<le> Year r')
         \<and> kpi_latest (df module_globals) ''UltraTech Cement'' ''Current Ratio'' = Some (Value r'))
   \<and> map_sum id fst (fst (fst (dispatch
         \<lparr>company_select = ''UltraTech Cement'', metric_group = ''liquidity'',
           year_range = (2021, 2022)\<rparr>
         (loaded_state\<lparr>module_state := module_globals\<rparr>))))
       = Inr [Div [Div [Div [Str ''Current Ratio''], Div [Str ''0.44'']]],
              Div [Div [Div [Str ''Quick Ratio''], Div [Str ''0.17'']]]]"
proof -
  let ?r = "\<lparr>Company = ''UltraTech Cement'', Metric = ''Current Ratio'', Value = Fin 0.37,
             YearLabel = ''Mar-21'', Year = 2021\<rparr>"
  have h: "?r \<in> set (df module_globals)" by (rule ultratech_current_ratio_2021)
  have c: "Company ?r = ''UltraTech Cement''" and m: "Metric ?r = ''Current Ratio''" by simp_all
  from kpi_latest_ignores_year_range [OF h c m, where yr = "(2021, 2022)" and st = loaded_state] h
  show ?thesis by blast
qed

section \<open>Absent values in the main chart\<close>

text \<open>
  Claim C2, evaluated on the source. For UltraTech Cement, the group \<open>turnover\<close> and the
  range 2021 to 2025 every series has a point for Mar-21 whose value is NaN, neither left
  out nor replaced by 0. Its label is the text \<open>nan\<close> and not the dash: the test
  \<open>v is not None\<close> holds for the float NaN that the data frame stores for an absent value.
\<close>

theorem absent_value_bar_label_is_nan:
  "map_sum id (\<lambda>(fig, spark, tbl).
       map (\<lambda>t. (trace_name t, trace_x t, trace_y t, trace_text t)) (traces fig))
     (update_charts module_globals ''UltraTech Cement'' ''turnover'' (2021, 2025))
   = Inr [(''Inventory Turnover'', [''Mar-21'', ''Mar-22'', ''Mar-23'', ''Mar-24'', ''Mar-25''],
           [NaN, Fin 5.59, Fin 6.00, Fin 4.97, Fin 4.41],
           [''nan'', ''5.59'', ''6.00'', ''4.97'', ''4.41'']),
          (''Asset Turnover'', [''Mar-21'', ''Mar-22'', ''Mar-23'', ''Mar-24'', ''Mar-25''],
           [NaN, Fin 0.86, Fin 1.01, Fin 1.07, Fin 0.92],
           [''nan'', ''0.86'', ''1.01'', ''1.07'', ''0.92'']),
          (''Trade Receivable Turnover'', [''Mar-21'', ''Mar-22'', ''Mar-23'', ''Mar-24'', ''Mar-25''],
           [NaN, Fin 2.54, Fin 2.58, Fin 2.55, Fin 2.28],
           [''nan'', ''2.54'', ''2.58'', ''2.55'', ''2.28''])]"
proof -
  have g: "map_of (metric_groups module_globals) ''turnover''
             = Some (''Inventory Turnover'' # [''Asset Turnover'', ''Trade Receivable Turnover''])"
    by (simp add: metric_groups_module)
  show ?thesis
    by (simp only: update_charts_ok [OF g] map_sum.simps id_apply prod.case ultratech_turnover_bars)
qed

section \<open>Evaluations of the table and of ranges\<close>

lemma years_in_bounds_all:
  "list_all (\<lambda>r. 2021 \<le> Year r \<and> Year r \<le> 2025) (df module_globals)"
  by code_simp


lemma leverage_table_df:
  "table_df module_globals [''Interest Coverage Ratio''] 2021 2025 =
     \<lparr>frame_index = [''Mar-21'', ''Mar-22'', ''Mar-23'', ''Mar-24'', ''Mar-25''],
      frame_columns = [(''Ambuja Cements'', ''Interest Coverage Ratio''),
                       (''UltraTech Cement'', ''Interest Coverage Ratio'')],
      frame_values = [[Fin 37.140, Fin 7.31], [Fin 19.33, Fin 11.37], [Fin 21.63, Fin 10.62],
                      [Fin 21.50, Fin 11.71], [Fin 28.46, Fin 6.67]]\<rparr>"
  by code_simp

lemma leverage_table_text:
  "to_csv
     \<lparr>frame_index = [''Mar-21'', ''Mar-22'', ''Mar-23'', ''Mar-24'', ''Mar-25''],
      frame_columns = [(''Ambuja Cements'', ''Interest Coverage Ratio''),
                       (''UltraTech Cement'', ''Interest Coverage Ratio'')],
      frame_values = [[Fin 37.140, Fin 7.31], [Fin 19.33, Fin 11.37], [Fin 21.63, Fin 10.62],
                      [Fin 21.50, Fin 11.71], [Fin 28.46, Fin 6.67]]\<rparr>
   = ''Company,Ambuja Cements,UltraTech Cement\<newline>Metric,Interest Coverage Ratio,Interest Coverage Ratio\<newline>YearLabel,,\<newline>Mar-21,37.14,7.31\<newline>Mar-22,19.33,11.37\<newline>Mar-23,21.63,10.62\<newline>Mar-24,21.5,11.71\<newline>Mar-25,28.46,6.67\<newline>''"
  by code_simp

lemma leverage_cells_rounded:
  "list_all (list_all (\<lambda>v. round3 v = v))
     [[Fin 37.140, Fin 7.31], [Fin 19.33, Fin 11.37], [Fin 21.63, Fin 10.62],
      [Fin 21.50, Fin 11.71], [Fin 28.46, Fin 6.67]]"
  by code_simp

lemma turnover_2021_filtered:
  "filtered (df module_globals)
     [''Inventory Turnover'', ''Asset Turnover'', ''Trade Receivable Turnover''] 2021 2021
   = [\<lparr>Company = ''Ambuja Cements'', Metric = ''Inventory Turnover'', Value = Fin 10.58,
        YearLabel = ''Mar-21'', Year = 2021\<rparr>,
      \<lparr>Company = ''Ambuja Cements'', Metric = ''Asset Turnover'', Value = Fin 0.94,
        YearLabel = ''Mar-21'', Year = 2021\<rparr>,
      \<lparr>Company = ''Ambuja Cements'', Metric = ''Trade Receivable Turnover'', Value = Fin 48.00,
        YearLabel = ''Mar-21'', Year = 2021\<rparr>,
      \<lparr>Company = ''UltraTech Cement'', Metric = ''Inventory Turnover'', Value = NaN,
        YearLabel = ''Mar-21'', Year = 2021\<rparr>,
      \<lparr>Company = ''UltraTech Cement'', Metric = ''Asset Turnover'', Value = NaN,
        YearLabel = ''Mar-21'', Year = 2021\<rparr>,
      \<lparr>Company = ''UltraTech Cement'', Metric = ''Trade Receivable Turnover'', Value = NaN,
        YearLabel = ''Mar-21'', Year = 2021\<rparr>]"
  by code_simp

lemma turnover_2021_table_df:
  "table_df module_globals
     [''Inventory Turnover'', ''Asset Turnover'', ''Trade Receivable Turnover''] 2021 2021
   = \<lparr>frame_index = [''Mar-21''],
      frame_columns = [(''Ambuja Cements'', ''Asset Turnover''),
                       (''Ambuja Cements'', ''Inventory Turnover''),
                       (''Ambuja Cements'', ''Trade Receivable Turnover'')],
      frame_values = [[Fin 0.94, Fin 10.58, Fin 48.00]]\<rparr>"
  by code_simp

lemma turnover_2021_table_text:
  "to_csv
     \<lparr>frame_index = [''Mar-21''],
      frame_columns = [(''Ambuja Cements'', ''Asset Turnover''),
                       (''Ambuja Cements'', ''Inventory Turnover''),
                       (''Ambuja Cements'', ''Trade Receivable Turnover'')],
      frame_values = [[Fin 0.94, Fin 10.58, Fin 48.00]]\<rparr>
   = ''Company,Ambuja Cements,Ambuja Cements,Ambuja Cements\<newline>Metric,Asset Turnover,Inventory Turnover,Trade Receivable Turnover\<newline>YearLabel,,,\<newline>Mar-21,0.94,10.58,48.0\<newline>''"
  by code_simp

lemma leverage_above_bounds_bars:
  "map trace_x (traces (main_chart module_globals
       (filtered (df module_globals) [''Interest Coverage Ratio''] 2026 2030)
       ''Ambuja Cements'' ''leverage'' [''Interest Coverage Ratio''])) = [[]]"
  by code_simp

lemma leverage_2025_bars:
  "map trace_x (traces (main_chart module_globals
       (filtered (df module_globals) [''Interest Coverage Ratio''] 2025 2025)
       ''Ambuja Cements'' ''leverage'' [''Interest Coverage Ratio''])) = [[''Mar-25'']]"
  by code_simp

section \<open>The columns of the table\<close>

lemma present_empty_iff:
  "concat (map (\<lambda>v. case v of Fin q \<Rightarrow> [q] | NaN \<Rightarrow> []) vs) = [] \<longleftrightarrow> (\<forall>v \<in> set vs. v = NaN)"
  by (induction vs) (auto split: float64.splits)

lemma mean_skipna_NaN_iff: "mean_skipna vs = NaN \<longleftrightarrow> (\<forall>v \<in> set vs. v = NaN)"
proof -
  let ?p = "concat (map (\<lambda>v. case v of Fin q \<Rightarrow> [q] | NaN \<Rightarrow> []) vs)"
  have e: "?p = [] \<longleftrightarrow> (\<forall>v \<in> set vs. v = NaN)" by (rule present_empty_iff)
  show ?thesis
  proof (cases ?p)
    case Nil
    then have "mean_skipna vs = NaN" unfolding mean_skipna_def by (simp only: list.case)
    with Nil e show ?thesis by blast
  next
    case (Cons q qs)
    then have "mean_skipna vs \<noteq> NaN"
      unfolding mean_skipna_def by (simp only: list.case float64.distinct not_False_eq_True)
    moreover from Cons have "?p \<noteq> []" by (simp only: list.distinct not_False_eq_True)
    ultimately show ?thesis using e by blast
  qed
qed

lemma agged_set:
  "set (filter (\<lambda>(k, v). v \<noteq> NaN) (groupby_mean rs))
     = {(k, mean_skipna (map Value (filter (\<lambda>r. group_key r = k) rs))) | k.
          k \<in> group_key ` set rs
          \<and> mean_skipna (map Value (filter (\<lambda>r. group_key r = k) rs)) \<noteq> NaN}"
  by (auto simp: groupby_mean_def)

lemma agged_keys:
  "fst ` set (filter (\<lambda>(k, v). v \<noteq> NaN) (groupby_mean rs))
     = {group_key r | r. r \<in> set rs \<and> Value r \<noteq> NaN}"
proof (rule set_eqI)
  fix k
  let ?agged = "filter (\<lambda>(k, v). v \<noteq> NaN) (groupby_mean rs)"
  define m where "m = (\<lambda>k. mean_skipna (map Value (filter (\<lambda>r. group_key r = k) rs)))"
  have s: "set ?agged = {(k, m k) | k. k \<in> group_key ` set rs \<and> m k \<noteq> NaN}"
    unfolding m_def by (rule agged_set)
  have "k \<in> fst ` set ?agged \<longleftrightarrow> k \<in> group_key ` set rs \<and> m k \<noteq> NaN"
  proof
    assume "k \<in> fst ` set ?agged"
    then obtain x where x: "x \<in> set ?agged" "k = fst x" by blast
    from x(1) s obtain k' where "x = (k', m k')" "k' \<in> group_key ` set rs" "m k' \<noteq> NaN"
      by blast
    with x(2) show "k \<in> group_key ` set rs \<and> m k \<noteq> NaN" by simp
  next
    assume "k \<in> group_key ` set rs \<and> m k \<noteq> NaN"
    then have "(k, m k) \<in> set ?agged" using s by blast
    then show "k \<in> fst ` set ?agged" by force
  qed
  also have "\<dots> \<longleftrightarrow> (\<exists>r \<in> set rs. group_key r = k \<and> Value r \<noteq> NaN)"
    unfolding m_def by (auto simp: mean_skipna_NaN_iff)
  also have "\<dots> \<longleftrightarrow> k \<in> {group_key r | r. r \<in> set rs \<and> Value r \<noteq> NaN}"
    by auto
  finally show "k \<in> fst ` set ?agged
      \<longleftrightarrow> k \<in> {group_key r | r. r \<in> set rs \<and> Value r \<noteq> NaN}" .
qed

lemma pivot_table_columns:
  "set (frame_columns (pivot_table rs)) = {(Company r, Metric r) | r. r \<in> set rs \<and> Value r \<noteq> NaN}"
proof -
  let ?agged = "filter (\<lambda>(k, v). v \<noteq> NaN) (groupby_mean rs)"
  have "set (frame_columns (pivot_table rs)) = (\<lambda>x. snd (fst x)) ` set ?agged"
    by (simp add: pivot_table_def Let_def case_prod_unfold)
  also have "\<dots> = snd ` fst ` set ?agged"
    by (simp add: image_image)
  also have "\<dots> = {(Company r, Metric r) | r. r \<in> set rs \<and> Value r \<noteq> NaN}"
    unfolding agged_keys by (force simp: group_key_def image_iff)
  finally show ?thesis .
qed

lemma pivot_table_columns_sorted:
  "sorted (frame_columns (pivot_table rs)) \<and> distinct (frame_columns (pivot_table rs))"
  by (simp add: pivot_table_def Let_def case_prod_unfold)

lemma table_df_columns: "frame_columns (table_df G metrics a b)
    = frame_columns (pivot_table (filtered (df G) metrics a b))"
  by (simp add: table_df_def round_frame_def)

text \<open>
  Claim C4, as amended. The columns of the table are the (company, metric) pairs that have at
  least one value that is not absent among the filtered records, in ascending order and
  without repetition; each of them pairs a company of the filtered records with a metric of
  the group. A pair whose values are all absent in the range has no column.
\<close>

theorem table_columns_are_pairs_with_a_value:
  "set (frame_columns (table_df G metrics yr_min yr_max))
     = {(Company r, Metric r) | r. r \<in> set (filtered (df G) metrics yr_min yr_max) \<and> Value r \<noteq> NaN}
   \<and> sorted (frame_columns (table_df G metrics yr_min yr_max))
   \<and> distinct (frame_columns (table_df G metrics yr_min yr_max))
   \<and> set (frame_columns (table_df G metrics yr_min yr_max))
       \<subseteq> Company ` set (filtered (df G) metrics yr_min yr_max) \<times> set metrics"
proof -
  have "{(Company r, Metric r) | r. r \<in> set (filtered (df G) metrics yr_min yr_max) \<and> Value r \<noteq> NaN}
          \<subseteq> Company ` set (filtered (df G) metrics yr_min yr_max) \<times> set metrics"
    by (auto simp: filtered_def)
  then show ?thesis
    unfolding table_df_columns pivot_table_columns
    using pivot_table_columns_sorted by blast
qed

theorem table_columns_are_pairs_with_a_value_witness:
  "set (frame_columns (table_df module_globals [''Interest Coverage Ratio''] 2021 2025))
     = {(Company r, Metric r) | r.
          r \<in> set (filtered (df module_globals) [''Interest Coverage Ratio''] 2021 2025)
          \<and> Value r \<noteq> NaN}
   \<and> (''Ambuja Cements'', ''Interest Coverage Ratio'')
       \<in> {(Company r, Metric r) | r.
            r \<in> set (filtered (df module_globals) [''Interest Coverage Ratio''] 2021 2025)
            \<and> Value r \<noteq> NaN}"
proof -
  from table_columns_are_pairs_with_a_value
         [of module_globals "[''Interest Coverage Ratio'']" 2021 2025]
  have a: "set (frame_columns (table_df module_globals [''Interest Coverage Ratio''] 2021 2025))
     = {(Company r, Metric r) | r.
          r \<in> set (filtered (df module_globals) [''Interest Coverage Ratio''] 2021 2025)
          \<and> Value r \<noteq> NaN}" by blast
  have "(''Ambuja Cements'', ''Interest Coverage Ratio'')
          \<in> set (frame_columns (table_df module_globals [''Interest Coverage Ratio''] 2021 2025))"
    by (simp add: leverage_table_df)
  with a show ?thesis by simp
qed

text \<open>
  Claim C4 as it is written asks for the cross product of the companies of the filtered
  records and the metrics of the group. For the group \<open>turnover\<close> and the range 2021 to 2021
  the filtered records hold UltraTech Cement, with absent values only, and the table has the
  three columns of Ambuja Cements and none of UltraTech Cement.
\<close>

theorem table_cross_product_counterexample:
  "\<lparr>Company = ''UltraTech Cement'', Metric = ''Inventory Turnover'', Value = NaN,
     YearLabel = ''Mar-21'', Year = 2021\<rparr>
     \<in> set (filtered (df module_globals)
              [''Inventory Turnover'', ''Asset Turnover'', ''Trade Receivable Turnover''] 2021 2021)
   \<and> frame_columns (table_df module_globals
         [''Inventory Turnover'', ''Asset Turnover'', ''Trade Receivable Turnover''] 2021 2021)
       = [(''Ambuja Cements'', ''Asset Turnover''),
          (''Ambuja Cements'', ''Inventory Turnover''),
          (''Ambuja Cements'', ''Trade Receivable Turnover'')]
   \<and> map_sum id (snd \<circ> snd) (update_charts module_globals ''Both'' ''turnover'' (2021, 2021))
       = Inr (Pre ''Company,Ambuja Cements,Ambuja Cements,Ambuja Cements\<newline>Metric,Asset Turnover,Inventory Turnover,Trade Receivable Turnover\<newline>YearLabel,,,\<newline>Mar-21,0.94,10.58,48.0\<newline>'')"
proof -
  have g: "map_of (metric_groups module_globals) ''turnover''
             = Some (''Inventory Turnover'' # [''Asset Turnover'', ''Trade Receivable Turnover''])"
    by (simp add: metric_groups_module)
  have a: "\<lparr>Company = ''UltraTech Cement'', Metric = ''Inventory Turnover'', Value = NaN,
     YearLabel = ''Mar-21'', Year = 2021\<rparr>
     \<in> set (filtered (df module_globals)
              [''Inventory Turnover'', ''Asset Turnover'', ''Trade Receivable Turnover''] 2021 2021)"
    unfolding turnover_2021_filtered by simp
  have b: "frame_columns (table_df module_globals
         [''Inventory Turnover'', ''Asset Turnover'', ''Trade Receivable Turnover''] 2021 2021)
       = [(''Ambuja Cements'', ''Asset Turnover''),
          (''Ambuja Cements'', ''Inventory Turnover''),
          (''Ambuja Cements'', ''Trade Receivable Turnover'')]"
    unfolding turnover_2021_table_df by simp
  have c: "map_sum id (snd \<circ> snd) (update_charts module_globals ''Both'' ''turnover'' (2021, 2021))
       = Inr (Pre ''Company,Ambuja Cements,Ambuja Cements,Ambuja Cements\<newline>Metric,Asset Turnover,Inventory Turnover,Trade Receivable Turnover\<newline>YearLabel,,,\<newline>Mar-21,0.94,10.58,48.0\<newline>'')"
    by (simp only: update_charts_ok [OF g] map_sum.simps id_apply comp_apply snd_conv
          turnover_2021_table_df turnover_2021_table_text)
  from a b c show ?thesis by blast
qed

section \<open>The table of the group leverage\<close>

text \<open>
  Claim C5. For the group \<open>leverage\<close>, the range 2021 to 2025 and any company selection, the
  table has the five rows Mar-21 to Mar-25 in ascending order, every cell is a value rounded
  to three decimals, and the cell of Ambuja Cements for Mar-21 is 37.140. The text that the
  callback returns is the serialisation of this frame, whatever the company is.
\<close>

theorem leverage_table_five_rows:
  "table_df module_globals [''Interest Coverage Ratio''] 2021 2025 =
     \<lparr>frame_index = [''Mar-21'', ''Mar-22'', ''Mar-23'', ''Mar-24'', ''Mar-25''],
      frame_columns = [(''Ambuja Cements'', ''Interest Coverage Ratio''),
                       (''UltraTech Cement'', ''Interest Coverage Ratio'')],
      frame_values = [[Fin 37.140, Fin 7.31], [Fin 19.33, Fin 11.37], [Fin 21.63, Fin 10.62],
                      [Fin 21.50, Fin 11.71], [Fin 28.46, Fin 6.67]]\<rparr>
   \<and> length (frame_index (table_df module_globals [''Interest Coverage Ratio''] 2021 2025)) = 5
   \<and> list_all (list_all (\<lambda>v. round3 v = v))
        (frame_values (table_df module_globals [''Interest Coverage Ratio''] 2021 2025))
   \<and> map_sum id (snd \<circ> snd) (update_charts module_globals company ''leverage'' (2021, 2025))
       = Inr (Pre ''Company,Ambuja Cements,UltraTech Cement\<newline>Metric,Interest Coverage Ratio,Interest Coverage Ratio\<newline>YearLabel,,\<newline>Mar-21,37.14,7.31\<newline>Mar-22,19.33,11.37\<newline>Mar-23,21.63,10.62\<newline>Mar-24,21.5,11.71\<newline>Mar-25,28.46,6.67\<newline>'')"
proof -
  have g: "map_of (metric_groups module_globals) ''leverage''
             = Some (''Interest Coverage Ratio'' # [])"
    by (simp add: metric_groups_module)
  have b: "length (frame_index (table_df module_globals [''Interest Coverage Ratio''] 2021 2025)) = 5"
    unfolding leverage_table_df by simp
  have c: "list_all (list_all (\<lambda>v. round3 v = v))
        (frame_values (table_df module_globals [''Interest Coverage Ratio''] 2021 2025))"
    unfolding leverage_table_df using leverage_cells_rounded by simp
  have d: "map_sum id (snd \<circ> snd) (update_charts module_globals company ''leverage'' (2021, 2025))
       = Inr (Pre ''Company,Ambuja Cements,UltraTech Cement\<newline>Metric,Interest Coverage Ratio,Interest Coverage Ratio\<newline>YearLabel,,\<newline>Mar-21,37.14,7.31\<newline>Mar-22,19.33,11.37\<newline>Mar-23,21.63,10.62\<newline>Mar-24,21.5,11.71\<newline>Mar-25,28.46,6.67\<newline>'')"
    by (simp only: update_charts_ok [OF g] map_sum.simps id_apply comp_apply snd_conv
          leverage_table_df leverage_table_text)
  from leverage_table_df b c d show ?thesis by blast
qed

section \<open>Year ranges outside the dataset\<close>

lemma years_in_bounds:
  assumes "r \<in> set (df module_globals)"
  shows "2021 \<le> Year r \<and> Year r \<le> 2025"
  using years_in_bounds_all assms by (simp add: list_all_iff)

lemma filtered_clamp:
  assumes "yr_min \<le> 2025" and "2021 \<le> yr_max"
  shows "filtered (df module_globals) metrics yr_min yr_max
       = filtered (df module_globals) metrics (clamp_year yr_min) (clamp_year yr_max)"
  unfolding filtered_def
proof (rule filter_cong [OF refl])
  fix r assume "r \<in> set (df module_globals)"
  from years_in_bounds [OF this] assms
  show "(Metric r \<in> set metrics \<and> yr_min \<le> Year r \<and> Year r \<le> yr_max)
      = (Metric r \<in> set metrics \<and> clamp_year yr_min \<le> Year r \<and> Year r \<le> clamp_year yr_max)"
    by (auto simp: clamp_year_def)
qed

lemma table_df_clamp:
  assumes "yr_min \<le> 2025" and "2021 \<le> yr_max"
  shows "table_df module_globals metrics yr_min yr_max
       = table_df module_globals metrics (clamp_year yr_min) (clamp_year yr_max)"
  using filtered_clamp [OF assms, of metrics] by (simp add: table_df_def)

lemma update_charts_clamp:
  assumes "yr_min \<le> 2025" and "2021 \<le> yr_max"
  shows "update_charts module_globals company grp (yr_min, yr_max)
           = update_charts module_globals company grp (clamp_year yr_min, clamp_year yr_max)"
  by (simp add: update_charts_def Let_def filtered_clamp [OF assms] table_df_clamp [OF assms]
        split: option.splits list.splits)


text \<open>
  Claim C8, as amended. The callback of the charts has no clamping step. It does not fail on
  account of the year range: for a group of the catalog it returns a result for every range.
  When the range overlaps the bounds of the dataset (its lower end is at most 2025 and its
  upper end at least 2021), the views are those of the range clamped to 2021 and 2025.
\<close>

theorem overlapping_range_equals_clamped_range:
  assumes "yr_min \<le> 2025" and "2021 \<le> yr_max"
  shows "update_charts module_globals company grp (yr_min, yr_max)
           = update_charts module_globals company grp (clamp_year yr_min, clamp_year yr_max)
       \<and> (map_of (metric_groups module_globals) grp = None
           \<or> (\<exists>res. update_charts module_globals company grp (lo, hi) = Inr res))"
proof -
  have a: "update_charts module_globals company grp (yr_min, yr_max)
           = update_charts module_globals company grp (clamp_year yr_min, clamp_year yr_max)"
    using assms by (rule update_charts_clamp)
  have b: "map_of (metric_groups module_globals) grp = None
           \<or> (\<exists>res. update_charts module_globals company grp (lo, hi) = Inr res)"
  proof (cases "map_of (metric_groups module_globals) grp")
    case None
    then show ?thesis by simp
  next
    case (Some metrics)
    from catalog_nonempty [OF Some] obtain primary rest where "metrics = primary # rest"
      by (cases metrics) auto
    with Some have "map_of (metric_groups module_globals) grp = Some (primary # rest)" by simp
    from update_charts_ok [OF this, of company lo hi] show ?thesis by blast
  qed
  from a b show ?thesis by blast
qed

theorem overlapping_range_equals_clamped_range_witness:
  "(2000::int) \<le> 2025 \<and> (2021::int) \<le> 2030
   \<and> update_charts module_globals ''Both'' ''liquidity'' (2000, 2030)
       = update_charts module_globals ''Both'' ''liquidity'' (2021, 2025)
   \<and> (\<exists>res. update_charts module_globals ''Both'' ''liquidity'' (2026, 2030) = Inr res)"
proof -
  have h: "(2000::int) \<le> 2025" "(2021::int) \<le> 2030" by simp_all
  have c: "clamp_year 2000 = 2021" "clamp_year 2030 = 2025" by (simp_all add: clamp_year_def)
  have g: "map_of (metric_groups module_globals) ''liquidity'' \<noteq> None"
    by (simp add: metric_groups_module)
  from overlapping_range_equals_clamped_range
         [OF h, where company = "''Both''" and grp = "''liquidity''" and lo = 2026 and hi = 2030]
       g h
  show ?thesis unfolding c by blast
qed

text \<open>
  Claim C8 as it is written asks for the views of the clamped range for every range outside
  the bounds. The range 2026 to 2030 clamps to 2025 to 2025; the callback returns a series
  without points for it, and a series with the point Mar-25 for the clamped range.
\<close>

theorem range_above_bounds_counterexample:
  "clamp_year 2026 = 2025 \<and> clamp_year 2030 = 2025
   \<and> map_sum id (\<lambda>(fig, spark, tbl). map trace_x (traces fig))
       (update_charts module_globals ''Ambuja Cements'' ''leverage'' (2026, 2030)) = Inr [[]]
   \<and> map_sum id (\<lambda>(fig, spark, tbl). map trace_x (traces fig))
       (update_charts module_globals ''Ambuja Cements'' ''leverage''
          (clamp_year 2026, clamp_year 2030)) = Inr [[''Mar-25'']]"
proof -
  have g: "map_of (metric_groups module_globals) ''leverage''
             = Some (''Interest Coverage Ratio'' # [])"
    by (simp add: metric_groups_module)
  have c: "clamp_year 2026 = 2025" "clamp_year 2030 = 2025" by (simp_all add: clamp_year_def)
  have a: "map_sum id (\<lambda>(fig, spark, tbl). map trace_x (traces fig))
       (update_charts module_globals ''Ambuja Cements'' ''leverage'' (2026, 2030)) = Inr [[]]"
    by (simp only: update_charts_ok [OF g] map_sum.simps id_apply prod.case
          leverage_above_bounds_bars)
  have b: "map_sum id (\<lambda>(fig, spark, tbl). map trace_x (traces fig))
       (update_charts module_globals ''Ambuja Cements'' ''leverage''
          (clamp_year 2026, clamp_year 2030)) = Inr [[''Mar-25'']]"
    unfolding c
    by (simp only: update_charts_ok [OF g] map_sum.simps id_apply prod.case leverage_2025_bars)
  from c a b show ?thesis by blast
qed

end
